theory Spec2Isabelle
  imports Main "HOL-Library.Multiset"
begin

section \<open>The catalog model\<close>

text \<open>
  The component under study is \<open>CatalogTable\<close> (with its helpers \<open>refCompare\<close>,
  \<open>defaultColumnsFunc\<close>, \<open>LegacyCatalogTable\<close> and \<open>toEntityRow\<close>). An entity is the
  catalog's record: a kind, metadata with optional fields, and relations. An optional
  field (\<open>namespace?: string\<close>) is an \<open>option\<close>; the annotations object is a list of
  key/value pairs read with \<open>map_of\<close>.
\<close>

record compound_entity_ref =
  ref_kind :: string
  ref_namespace :: string
  ref_name :: string

record entity_relation =
  rel_type :: string
  targetRef :: string

record entity_meta =
  name :: string
  namespace :: "string option"
  title :: "string option"
  annotations :: "(string \<times> string) list option"

record entity =
  kind :: string
  metadata :: entity_meta
  relations :: "entity_relation list option"

text \<open>
  The filter set of the entity list context. Each filter is an object with a \<open>value\<close>;
  \<open>kind_filter fs\<close> is \<open>filters.kind?.value\<close>, so \<open>None\<close> is an unset filter and
  \<open>Some v\<close> a filter whose value is \<open>v\<close>. The same holds for \<open>type\<close> and \<open>user\<close>.
\<close>

record filters =
  kind_filter :: "string option"
  type_filter :: "string option"
  user_filter :: "string option"

record js_error =
  error_name :: string
  message :: string

text \<open>
  The entity list is a JavaScript array, shared by reference between the entity list
  context and the components that receive it. Arrays live in a store, and the context
  holds the address of its array.
\<close>

type_synonym addr = nat
type_synonym heap = "addr \<Rightarrow> entity list"

record entity_list_context =
  loading :: bool
  error :: "js_error option"
  entities :: addr
  filters :: filters

text \<open>
  What the browser records of the side effects of action handlers: the calls of
  \<open>window.open\<close>, each with its URL and its target.
\<close>

record browser =
  opened :: "(string \<times> string) list"

section \<open>Imported functions\<close>

text \<open>
  Functions imported from other packages (\<open>humanizeEntityRef\<close>, \<open>stringifyEntityRef\<close>,
  \<open>getEntityRelations\<close>, lodash's \<open>capitalize\<close>, \<open>pluralize\<close>, the starred-entities
  service) and the platform's \<open>String.prototype.localeCompare\<close> are parameters of the
  model, collected in one record. \<open>humanizeEntityRef\<close> accepts an entity or a compound
  reference, and is always called here with a \<open>defaultKind\<close>; \<open>getEntityRelations\<close>
  takes the optional kind of its filter argument.
\<close>

record deps =
  humanizeEntityRef :: "entity + compound_entity_ref \<Rightarrow> string \<Rightarrow> string"
  stringifyEntityRef :: "entity \<Rightarrow> string"
  getEntityRelations :: "entity \<Rightarrow> string \<Rightarrow> string option \<Rightarrow> compound_entity_ref list"
  localeCompare :: "string \<Rightarrow> string \<Rightarrow> int"
  capitalize :: "string \<Rightarrow> string"
  pluralize :: "string \<Rightarrow> string"
  isStarredEntity :: "entity \<Rightarrow> bool"
  toggleStarredEntity :: "entity \<Rightarrow> browser \<Rightarrow> browser"

text \<open>
  Modelled from the spec: the constants of the catalog model are not part of the
  sources. The relation types are the spec's "owned by" and "part of", the annotation
  keys its view-URL and edit-URL annotations. No theorem depends on their spelling.
\<close>

definition RELATION_OWNED_BY :: string where
  "RELATION_OWNED_BY = ''ownedBy''"

definition RELATION_PART_OF :: string where
  "RELATION_PART_OF = ''partOf''"

definition ANNOTATION_VIEW_URL :: string where
  "ANNOTATION_VIEW_URL = ''backstage.io/view-url''"

definition ANNOTATION_EDIT_URL :: string where
  "ANNOTATION_EDIT_URL = ''backstage.io/edit-url''"

section \<open>JavaScript primitives\<close>

text \<open>A string is truthy when it is defined and not empty.\<close>

fun truthy :: "string option \<Rightarrow> bool" where
  "truthy None = False"
| "truthy (Some s) = (s \<noteq> [])"

text \<open>\<open>a || b\<close> on an optional string \<open>a\<close> and a string \<open>b\<close>.\<close>

definition or_else :: "string option \<Rightarrow> string \<Rightarrow> string" where
  "or_else a b = (if truthy a then the a else b)"

text \<open>\<open>a ?? b\<close>: only an undefined \<open>a\<close> gives \<open>b\<close>.\<close>

fun nullish :: "string option \<Rightarrow> string \<Rightarrow> string" where
  "nullish None b = b"
| "nullish (Some a) b = a"

text \<open>\<open>Array.prototype.join\<close> on an array of strings.\<close>

fun join :: "string \<Rightarrow> string list \<Rightarrow> string" where
  "join sep [] = []"
| "join sep [x] = x"
| "join sep (x # y # ys) = x @ sep @ join sep (y # ys)"

text \<open>
  \<open>Array.prototype.sort\<close> with a comparison function. The language fixes the result
  for a consistent comparison function: the elements in ascending order, equal elements
  in their original order. Insertion from the right computes it. The sort is in place:
  the caller stores the result at the array's address.
\<close>

fun insert_by :: "('a \<Rightarrow> 'a \<Rightarrow> int) \<Rightarrow> 'a \<Rightarrow> 'a list \<Rightarrow> 'a list" where
  "insert_by cmp x [] = [x]"
| "insert_by cmp x (y # ys) =
     (if cmp x y \<le> 0 then x # y # ys else y # insert_by cmp x ys)"

definition Array_sort :: "('a \<Rightarrow> 'a \<Rightarrow> int) \<Rightarrow> 'a list \<Rightarrow> 'a list" where
  "Array_sort cmp xs = foldr (insert_by cmp) xs []"

text \<open>The decimal digits of a number, as a template literal prints \<open>entities.length\<close>.\<close>

definition digit :: "nat \<Rightarrow> char" where
  "digit n = ''0123456789'' ! n"

fun Number_toString :: "nat \<Rightarrow> string" where
  "Number_toString n =
     (if n < 10 then [digit n] else Number_toString (n div 10) @ [digit (n mod 10)])"

declare Number_toString.simps [simp del]

text \<open>
  \<open>Error.prototype.toString\<close>: the name and the message, joined by a colon when both
  are non-empty.
\<close>

definition Error_toString :: "js_error \<Rightarrow> string" where
  "Error_toString e =
     (if error_name e = [] then message e
      else if message e = [] then error_name e
      else error_name e @ '': '' @ message e)"

text \<open>An object of table options: a map from option names to values.\<close>

datatype jsval =
  JUndefined
| JBool bool
| JNum int
| JStr string
| JNumArray "int list"

type_synonym js_object = "string \<rightharpoonup> jsval"

section \<open>Columns\<close>

text \<open>
  Modelled from the spec: the column factories (\<open>columnFactories\<close>, from
  \<open>./columns\<close>) are not part of the sources. A column descriptor is represented by the
  factory that built it and the options it was given: the \<open>hidden\<close> flag of the title
  and type columns, the \<open>defaultKind\<close> of the name column.
\<close>

datatype column =
  TitleColumn bool
| NameColumn "string option"
| SystemColumn
| OwnerColumn
| SpecTypeColumn bool
| SpecLifecycleColumn
| SpecTargetsColumn
| NamespaceColumn
| MetadataDescriptionColumn
| TagsColumn

definition createTitleColumn :: "bool \<Rightarrow> column" where
  "createTitleColumn hidden = TitleColumn hidden"

definition createNameColumn :: "string option \<Rightarrow> column" where
  "createNameColumn defaultKind = NameColumn defaultKind"

definition createSystemColumn :: column where
  "createSystemColumn = SystemColumn"

definition createOwnerColumn :: column where
  "createOwnerColumn = OwnerColumn"

definition createSpecTypeColumn :: "bool \<Rightarrow> column" where
  "createSpecTypeColumn hidden = SpecTypeColumn hidden"

definition createSpecLifecycleColumn :: column where
  "createSpecLifecycleColumn = SpecLifecycleColumn"

definition createSpecTargetsColumn :: column where
  "createSpecTargetsColumn = SpecTargetsColumn"

definition createNamespaceColumn :: column where
  "createNamespaceColumn = NamespaceColumn"

definition createMetadataDescriptionColumn :: column where
  "createMetadataDescriptionColumn = MetadataDescriptionColumn"

definition createTagsColumn :: column where
  "createTagsColumn = TagsColumn"

text \<open>
  \<open>createEntitySpecificColumns\<close> is local to \<open>defaultColumnsFunc\<close>; the variables it
  closes over (\<open>filters\<close>, \<open>entities\<close>, \<open>showTypeColumn\<close>) are its arguments here. The
  \<open>switch\<close> is on \<open>filters.kind?.value\<close>: an unset filter takes the default branch.
\<close>

definition createEntitySpecificColumns :: "filters \<Rightarrow> entity list \<Rightarrow> bool \<Rightarrow> column list" where
  "createEntitySpecificColumns fs es showTypeColumn =
     (let baseColumns =
        [createSystemColumn,
         createOwnerColumn,
         createSpecTypeColumn (\<not> showTypeColumn),
         createSpecLifecycleColumn]
      in
        if kind_filter fs = Some ''user'' then []
        else if kind_filter fs = Some ''domain'' \<or> kind_filter fs = Some ''system''
          then [createOwnerColumn]
        else if kind_filter fs = Some ''group'' \<or> kind_filter fs = Some ''template''
          then [createSpecTypeColumn (\<not> showTypeColumn)]
        else if kind_filter fs = Some ''location''
          then [createSpecTypeColumn (\<not> showTypeColumn), createSpecTargetsColumn]
        else if list_all (\<lambda>e. namespace (metadata e) = Some ''default'') es
          then baseColumns
        else baseColumns @ [createNamespaceColumn])"

definition defaultColumnsFunc :: "entity_list_context \<Rightarrow> heap \<Rightarrow> column list" where
  "defaultColumnsFunc ctx h =
     (let showTypeColumn = (type_filter (filters ctx) = None)
      in [createTitleColumn True,
          createNameColumn (kind_filter (filters ctx))]
         @ createEntitySpecificColumns (filters ctx) (h (entities ctx)) showTypeColumn
         @ [createMetadataDescriptionColumn,
            createTagsColumn])"

section \<open>Row projection\<close>

record resolved_row =
  resolved_name :: string
  entityRef :: string
  ownedByRelationsTitle :: string
  ownedByRelations :: "compound_entity_ref list"
  partOfSystemRelationTitle :: string
  partOfSystemRelations :: "compound_entity_ref list"

record entity_row =
  entity :: entity
  resolved :: resolved_row

definition toEntityRow :: "deps \<Rightarrow> entity \<Rightarrow> entity_row" where
  "toEntityRow d e =
     (let partOfSystemRelations = getEntityRelations d e RELATION_PART_OF (Some ''system'');
          ownedByRelations = getEntityRelations d e RELATION_OWNED_BY None
      in \<lparr> entity = e,
           resolved = \<lparr>
             resolved_name = humanizeEntityRef d (Inl e) ''Component'',
             entityRef = stringifyEntityRef d e,
             ownedByRelationsTitle =
               join '', '' (map (\<lambda>r. humanizeEntityRef d (Inr r) ''group'') ownedByRelations),
             ownedByRelations = ownedByRelations,
             partOfSystemRelationTitle =
               join '', '' (map (\<lambda>r. humanizeEntityRef d (Inr r) ''system'') partOfSystemRelations),
             partOfSystemRelations = partOfSystemRelations \<rparr> \<rparr>)"

section \<open>Sorting by display name\<close>

definition toRef :: "deps \<Rightarrow> entity \<Rightarrow> string" where
  "toRef d e = or_else (title (metadata e)) (humanizeEntityRef d (Inl e) ''Component'')"

definition refCompare :: "deps \<Rightarrow> entity \<Rightarrow> entity \<Rightarrow> int" where
  "refCompare d a b = localeCompare d (toRef d a) (toRef d b)"

section \<open>Row actions\<close>

datatype glyph = OpenInNew | Edit | YellowStar | StarBorder

text \<open>An icon: the visually hidden title and the glyph after it.\<close>

record icon_element =
  hidden_title :: string
  glyph :: glyph

text \<open>
  An action descriptor. The favorite action sets no \<open>disabled\<close> property, and only it
  sets a \<open>cellStyle\<close>. A handler is a function on the browser's state.
\<close>

record action =
  icon :: icon_element
  tooltip :: string
  disabled :: "bool option"
  cellStyle :: "(string \<times> string) list option"
  onClick :: "browser \<Rightarrow> browser"

text \<open>\<open>entity.metadata.annotations?.[key]\<close>\<close>

definition annotation :: "entity \<Rightarrow> string \<Rightarrow> string option" where
  "annotation e key =
     (case annotations (metadata e) of None \<Rightarrow> None | Some m \<Rightarrow> map_of m key)"

definition window_open :: "string \<Rightarrow> string \<Rightarrow> browser \<Rightarrow> browser" where
  "window_open url target b = b\<lparr>opened := opened b @ [(url, target)]\<rparr>"

definition viewAction :: "entity_row \<Rightarrow> action" where
  "viewAction row =
     (let url = annotation (entity row) ANNOTATION_VIEW_URL;
          title = ''View''
      in \<lparr> icon = \<lparr> hidden_title = title, glyph = OpenInNew \<rparr>,
           tooltip = title,
           disabled = Some (\<not> truthy url),
           cellStyle = None,
           onClick = (\<lambda>b. if \<not> truthy url then b else window_open (the url) ''_blank'' b) \<rparr>)"

definition editAction :: "entity_row \<Rightarrow> action" where
  "editAction row =
     (let url = annotation (entity row) ANNOTATION_EDIT_URL;
          title = ''Edit''
      in \<lparr> icon = \<lparr> hidden_title = title, glyph = Edit \<rparr>,
           tooltip = title,
           disabled = Some (\<not> truthy url),
           cellStyle = None,
           onClick = (\<lambda>b. if \<not> truthy url then b else window_open (the url) ''_blank'' b) \<rparr>)"

definition starAction :: "deps \<Rightarrow> entity_row \<Rightarrow> action" where
  "starAction d row =
     (let isStarred = isStarredEntity d (entity row);
          title = (if isStarred then ''Remove from favorites'' else ''Add to favorites'')
      in \<lparr> icon = \<lparr> hidden_title = title,
                     glyph = (if isStarred then YellowStar else StarBorder) \<rparr>,
           tooltip = title,
           disabled = None,
           cellStyle = Some [(''paddingLeft'', ''1em'')],
           onClick = toggleStarredEntity d (entity row) \<rparr>)"

definition defaultActions :: "deps \<Rightarrow> (entity_row \<Rightarrow> action) list" where
  "defaultActions d = [viewAction, editAction, starAction d]"

section \<open>The rendered elements\<close>

text \<open>
  The properties the generic \<open>Table\<close> widget receives. Its \<open>title\<close> is \<open>table_title\<close>
  here; contents for the empty state are a string.
\<close>

record table_props =
  isLoading :: bool
  columns :: "column list"
  options :: js_object
  table_title :: string
  data :: "entity_row list"
  actions :: "(entity_row \<Rightarrow> action) list option"
  subtitle :: "string option"
  emptyContent :: "string option"

datatype element =
  Div element
| WarningPanel string string element
| CodeSnippet string string
| PaginatedCatalogTable "column list" "entity_row list"
| Table table_props

section \<open>The legacy table\<close>

text \<open>The properties of \<open>LegacyCatalogTable\<close>, each with the prefix \<open>l_\<close>.\<close>

record LegacyCatalogTableProps =
  l_actions :: "(entity_row \<Rightarrow> action) list option"
  l_columns :: "column list"
  l_emptyContent :: "string option"
  l_entities :: addr
  l_loading :: bool
  l_options :: "js_object option"
  l_subtitle :: "string option"
  l_title :: string

text \<open>
  \<open>entities.sort(refCompare)\<close> sorts the array at \<open>l_entities\<close> in place and returns
  it; the rows are mapped from the sorted array. The component returns the element and
  the store it leaves behind. The spread \<open>...options\<close> overrides the defaults with the
  caller's own properties, and spreads nothing when \<open>options\<close> is undefined.
\<close>

definition LegacyCatalogTable :: "deps \<Rightarrow> LegacyCatalogTableProps \<Rightarrow> heap \<Rightarrow> element \<times> heap" where
  "LegacyCatalogTable d props h =
     (let h' = h(l_entities props := Array_sort (refCompare d) (h (l_entities props)));
          rows = map (toEntityRow d) (h' (l_entities props));
          showPagination = (length rows > 20)
      in (Table \<lparr>
            isLoading = l_loading props,
            columns = l_columns props,
            options =
              [''paging'' \<mapsto> JBool showPagination,
               ''pageSize'' \<mapsto> JNum 20,
               ''actionsColumnIndex'' \<mapsto> JNum (- 1),
               ''loadingType'' \<mapsto> JStr ''linear'',
               ''showEmptyDataSourceMessage'' \<mapsto> JBool (\<not> l_loading props),
               ''padding'' \<mapsto> JStr ''dense'',
               ''pageSizeOptions'' \<mapsto> JNumArray [20, 50, 100]]
              ++ (case l_options props of None \<Rightarrow> Map.empty | Some opts \<Rightarrow> opts),
            table_title = l_title props,
            data = rows,
            actions = l_actions props,
            subtitle = l_subtitle props,
            emptyContent = l_emptyContent props \<rparr>,
          h'))"

section \<open>The catalog table\<close>

text \<open>
  The properties of \<open>CatalogTable\<close>, each with the prefix \<open>p_\<close>. \<open>columns\<close> is a list
  of columns or a function of the entity list context, which may read the array of
  entities.
\<close>

datatype columns_prop =
  Columns "column list"
| ColumnsFunc "entity_list_context \<Rightarrow> heap \<Rightarrow> column list"

record CatalogTableProps =
  p_columns :: "columns_prop option"
  p_actions :: "(entity_row \<Rightarrow> action) list option"
  p_tableOptions :: "js_object option"
  p_subtitle :: "string option"
  p_emptyContent :: "string option"
  p_enablePagination :: "bool option"

text \<open>
  \<open>titleDisplay\<close>, \<open>tableColumns\<close> and the title are computed before the component
  chooses what to render; none of them writes to the store.
\<close>

definition titleDisplay :: "deps \<Rightarrow> filters \<Rightarrow> string" where
  "titleDisplay d fs =
     (let currentKind = or_else (kind_filter fs) [];
          currentType = or_else (type_filter fs) [];
          titlePreamble = capitalize d (nullish (user_filter fs) ''all'')
      in join '' '' (filter (\<lambda>s. s \<noteq> []) [titlePreamble, currentType, pluralize d currentKind]))"

definition tableColumns :: "CatalogTableProps \<Rightarrow> entity_list_context \<Rightarrow> heap \<Rightarrow> column list" where
  "tableColumns props ctx h =
     (case p_columns props of
        None \<Rightarrow> defaultColumnsFunc ctx h
      | Some (ColumnsFunc f) \<Rightarrow> f ctx h
      | Some (Columns cs) \<Rightarrow> cs)"

text \<open>
  The component returns the element it renders and the store it leaves behind. An
  \<open>Error\<close> object is truthy, so \<open>if (error)\<close> tests that the error is defined; the
  pagination flag is truthy when it is \<open>true\<close>; an array of actions is truthy, so
  \<open>actions || defaultActions\<close> takes the defaults when \<open>actions\<close> is undefined.
\<close>

definition CatalogTable ::
  "deps \<Rightarrow> CatalogTableProps \<Rightarrow> entity_list_context \<Rightarrow> heap \<Rightarrow> element \<times> heap" where
  "CatalogTable d props ctx h =
     (case error ctx of
        Some e \<Rightarrow>
          (Div (WarningPanel ''error'' ''Could not fetch catalog entities.''
                 (CodeSnippet ''text'' (Error_toString e))),
           h)
      | None \<Rightarrow>
          if p_enablePagination props = Some True
          then (PaginatedCatalogTable (tableColumns props ctx h)
                  (map (toEntityRow d) (h (entities ctx))),
                h)
          else LegacyCatalogTable d
                 \<lparr> l_actions =
                     (case p_actions props of
                        None \<Rightarrow> Some (defaultActions d)
                      | Some a \<Rightarrow> Some a),
                   l_columns = tableColumns props ctx h,
                   l_emptyContent = p_emptyContent props,
                   l_entities = entities ctx,
                   l_loading = loading ctx,
                   l_options = p_tableOptions props,
                   l_subtitle = p_subtitle props,
                   l_title =
                     titleDisplay d (filters ctx) @ '' (''
                       @ Number_toString (length (h (entities ctx))) @ '')'' \<rparr>
                 h)"

section \<open>The spec's wording\<close>

text \<open>
  The display name as the spec words it: the entity's title if it is set, and otherwise
  its humanized reference with the default kind \<open>Component\<close>. A title is set when it is
  defined and not the empty string.
\<close>

definition display_name :: "deps \<Rightarrow> entity \<Rightarrow> string" where
  "display_name d e =
     (case title (metadata e) of
        None \<Rightarrow> humanizeEntityRef d (Inl e) ''Component''
      | Some t \<Rightarrow> if t = [] then humanizeEntityRef d (Inl e) ''Component'' else t)"

text \<open>The order the spec asks of the rows: ascending under the locale's comparison.\<close>

definition display_name_le :: "deps \<Rightarrow> entity \<Rightarrow> entity \<Rightarrow> bool" where
  "display_name_le d a b = (localeCompare d (display_name d a) (display_name d b) \<le> 0)"

text \<open>The value of a filter, empty when the filter is unset.\<close>

fun filter_value :: "string option \<Rightarrow> string" where
  "filter_value None = []"
| "filter_value (Some v) = v"

text \<open>
  Joining the non-empty segments of a title with one space between neighbours, worded on
  the segments one by one.
\<close>

fun spaced :: "string list \<Rightarrow> string" where
  "spaced [] = []"
| "spaced (s # ss) =
     (if s = [] then spaced ss
      else if spaced ss = [] then s
      else s @ '' '' @ spaced ss)"

text \<open>
  The title read as four segments (the capitalized user filter, the type filter, the
  pluralized kind filter, the count in parentheses), the empty ones omitted, with one
  space between neighbours.
\<close>

definition title_spec :: "string \<Rightarrow> string \<Rightarrow> string \<Rightarrow> nat \<Rightarrow> string" where
  "title_spec user type_value kinds n =
     spaced [user, type_value, kinds, ''('' @ Number_toString n @ '')'']"

text \<open>
  The title read as the three filter segments, the empty ones omitted, with one space
  between neighbours, and then a space and the count in parentheses.
\<close>

definition title_counted :: "string \<Rightarrow> string \<Rightarrow> string \<Rightarrow> nat \<Rightarrow> string" where
  "title_counted user type_value kinds n =
     spaced [user, type_value, kinds] @ '' '' @ ''('' @ Number_toString n @ '')''"

text \<open>The title an element gives its table, if it gives one.\<close>

fun element_title :: "element \<Rightarrow> string option" where
  "element_title (Table tp) = Some (table_title tp)"
| "element_title other = None"

text \<open>
  An entity has a namespace other than the default one when its namespace field is
  defined and is not \<open>default\<close>.
\<close>

definition other_namespace :: "entity \<Rightarrow> bool" where
  "other_namespace e =
     (case namespace (metadata e) of None \<Rightarrow> False | Some ns \<Rightarrow> ns \<noteq> ''default'')"

text \<open>Joining with a separator, worded on the first element and the rest.\<close>

fun separated :: "string \<Rightarrow> string list \<Rightarrow> string" where
  "separated sep [] = []"
| "separated sep (x # xs) = x @ concat (map (\<lambda>y. sep @ y) xs)"

text \<open>The three render outcomes.\<close>

datatype outcome = ErrorPanel | PaginatedTable | LegacyTable

fun outcome_of :: "element \<Rightarrow> outcome option" where
  "outcome_of (Div (WarningPanel severity t (CodeSnippet language text))) = Some ErrorPanel"
| "outcome_of (PaginatedCatalogTable cols rows) = Some PaginatedTable"
| "outcome_of (Table tp) = Some LegacyTable"
| "outcome_of other = None"

text \<open>
  The actions an element hands to its table: the generic \<open>Table\<close> takes the \<open>actions\<close>
  property, \<open>PaginatedCatalogTable\<close> is given columns and data only.
\<close>

fun element_actions :: "element \<Rightarrow> (entity_row \<Rightarrow> action) list option" where
  "element_actions (Table tp) = actions tp"
| "element_actions other = None"

text \<open>A comparison function is consistent when it compares any two strings and is transitive.\<close>

definition total_cmp :: "(string \<Rightarrow> string \<Rightarrow> int) \<Rightarrow> bool" where
  "total_cmp cmp = (\<forall>s t. cmp s t \<le> 0 \<or> cmp t s \<le> 0)"

definition transitive_cmp :: "(string \<Rightarrow> string \<Rightarrow> int) \<Rightarrow> bool" where
  "transitive_cmp cmp = (\<forall>s t u. cmp s t \<le> 0 \<longrightarrow> cmp t u \<le> 0 \<longrightarrow> cmp s u \<le> 0)"

section \<open>An instance for evaluation\<close>

text \<open>
  One instance of the imported functions, to evaluate the model on concrete inputs:
  references are humanized to the bare name, strings are compared by character code
  (which orders lower-case ASCII words as every collation does), and the two words the
  examples capitalize or pluralize are mapped as lodash and pluralize map them.
\<close>

fun codes_compare :: "nat list \<Rightarrow> nat list \<Rightarrow> int" where
  "codes_compare [] [] = 0"
| "codes_compare [] (y # ys) = - 1"
| "codes_compare (x # xs) [] = 1"
| "codes_compare (x # xs) (y # ys) =
     (if x < y then - 1 else if y < x then 1 else codes_compare xs ys)"

definition code_compare :: "string \<Rightarrow> string \<Rightarrow> int" where
  "code_compare s t = codes_compare (map of_char s) (map of_char t)"

definition sample_deps :: deps where
  "sample_deps =
     \<lparr> humanizeEntityRef = (\<lambda>r defaultKind. case r of Inl e \<Rightarrow> name (metadata e) | Inr c \<Rightarrow> ref_name c),
       stringifyEntityRef = (\<lambda>e. kind e @ '':'' @ nullish (namespace (metadata e)) ''default'' @ ''/'' @ name (metadata e)),
       getEntityRelations = (\<lambda>e t k. []),
       localeCompare = code_compare,
       capitalize = (\<lambda>s. if s = ''all'' then ''All'' else if s = ''owned'' then ''Owned'' else s),
       pluralize = (\<lambda>s. if s = ''component'' then ''components'' else s),
       isStarredEntity = (\<lambda>e. False),
       toggleStarredEntity = (\<lambda>e b. b) \<rparr>"

text \<open>The same instance, with two owners and no system for every entity.\<close>

definition sample_relations_deps :: deps where
  "sample_relations_deps =
     sample_deps \<lparr> getEntityRelations :=
       (\<lambda>e t k. if t = RELATION_OWNED_BY
          then [\<lparr> ref_kind = ''group'', ref_namespace = ''default'', ref_name = ''team-a'' \<rparr>,
                \<lparr> ref_kind = ''group'', ref_namespace = ''default'', ref_name = ''team-b'' \<rparr>]
          else []) \<rparr>"

definition sample_entity :: "string \<Rightarrow> string option \<Rightarrow> (string \<times> string) list option \<Rightarrow> entity" where
  "sample_entity n ns ann =
     \<lparr> kind = ''Component'',
       metadata = \<lparr> name = n, namespace = ns, title = None, annotations = ann \<rparr>,
       relations = None \<rparr>"

definition sample_context :: "string option \<Rightarrow> string option \<Rightarrow> js_error option \<Rightarrow> entity_list_context" where
  "sample_context k t err =
     \<lparr> loading = False, error = err, entities = 0,
       filters = \<lparr> kind_filter = k, type_filter = t, user_filter = None \<rparr> \<rparr>"

definition user_context :: "string \<Rightarrow> string option \<Rightarrow> string option \<Rightarrow> entity_list_context" where
  "user_context u k t =
     \<lparr> loading = False, error = None, entities = 0,
       filters = \<lparr> kind_filter = k, type_filter = t, user_filter = Some u \<rparr> \<rparr>"

definition sample_props :: "bool option \<Rightarrow> CatalogTableProps" where
  "sample_props paginate =
     \<lparr> p_columns = None, p_actions = None, p_tableOptions = None, p_subtitle = None,
       p_emptyContent = None, p_enablePagination = paginate \<rparr>"

section \<open>Lemmas on the primitives\<close>

lemmas columnFactories =
  createTitleColumn_def createNameColumn_def createSystemColumn_def createOwnerColumn_def
  createSpecTypeColumn_def createSpecLifecycleColumn_def createSpecTargetsColumn_def
  createNamespaceColumn_def createMetadataDescriptionColumn_def createTagsColumn_def

lemma join_snoc: "xs \<noteq> [] \<Longrightarrow> join sep (xs @ [y]) = join sep xs @ sep @ y"
  by (induction sep xs rule: join.induct) auto

lemma join_separated: "join sep xs = separated sep xs"
  by (induction sep xs rule: join.induct) auto

lemma or_else_empty: "or_else a [] = filter_value a"
  by (cases a) (auto simp: or_else_def)

lemma toRef_display_name: "toRef d e = display_name d e"
  by (cases "title (metadata e)") (auto simp: toRef_def display_name_def or_else_def)

subsection \<open>Sorting\<close>

lemma mset_insert_by: "mset (insert_by cmp x xs) = add_mset x (mset xs)"
  by (induction xs) auto

lemma mset_Array_sort: "mset (Array_sort cmp xs) = mset xs"
  unfolding Array_sort_def by (induction xs) (auto simp: mset_insert_by)

lemma length_Array_sort: "length (Array_sort cmp xs) = length xs"
  using mset_Array_sort [of cmp xs] by (metis size_mset)

lemma set_insert_by: "set (insert_by cmp x xs) = insert x (set xs)"
  by (induction xs) auto

lemma sorted_insert_by:
  assumes tot: "\<And>a b. cmp a b \<le> 0 \<or> cmp b a \<le> 0"
    and tr: "\<And>a b c. cmp a b \<le> 0 \<Longrightarrow> cmp b c \<le> 0 \<Longrightarrow> cmp a c \<le> 0"
    and srt: "sorted_wrt (\<lambda>a b. cmp a b \<le> 0) xs"
  shows "sorted_wrt (\<lambda>a b. cmp a b \<le> 0) (insert_by cmp x xs)"
  using srt
proof (induction xs)
  case Nil
  then show ?case by simp
next
  case (Cons y ys)
  show ?case
  proof (cases "cmp x y \<le> 0")
    case True
    have "\<forall>z\<in>set ys. cmp x z \<le> 0"
    proof
      fix z assume "z \<in> set ys"
      with Cons.prems have "cmp y z \<le> 0" by simp
      with True show "cmp x z \<le> 0" by (rule tr)
    qed
    with True Cons.prems show ?thesis by simp
  next
    case False
    with tot [of x y] have yx: "cmp y x \<le> 0" by simp
    from Cons.prems have "sorted_wrt (\<lambda>a b. cmp a b \<le> 0) ys" by simp
    then have "sorted_wrt (\<lambda>a b. cmp a b \<le> 0) (insert_by cmp x ys)" by (rule Cons.IH)
    with False yx Cons.prems show ?thesis by (simp add: set_insert_by)
  qed
qed

lemma sorted_Array_sort:
  assumes tot: "\<And>a b. cmp a b \<le> 0 \<or> cmp b a \<le> 0"
    and tr: "\<And>a b c. cmp a b \<le> 0 \<Longrightarrow> cmp b c \<le> 0 \<Longrightarrow> cmp a c \<le> 0"
  shows "sorted_wrt (\<lambda>a b. cmp a b \<le> 0) (Array_sort cmp xs)"
proof (induction xs)
  case Nil
  then show ?case by (simp add: Array_sort_def)
next
  case (Cons x xs)
  have "Array_sort cmp (x # xs) = insert_by cmp x (Array_sort cmp xs)"
    by (simp add: Array_sort_def)
  with sorted_insert_by [OF tot tr Cons.IH] show ?case by simp
qed

subsection \<open>The comparison of the instance is consistent\<close>

lemma codes_compare_total: "codes_compare s t \<le> 0 \<or> codes_compare t s \<le> 0"
  by (induction s t rule: codes_compare.induct) auto

lemma codes_compare_trans:
  "codes_compare s t \<le> 0 \<Longrightarrow> codes_compare t u \<le> 0 \<Longrightarrow> codes_compare s u \<le> 0"
proof (induction s t arbitrary: u rule: codes_compare.induct)
  case 1
  then show ?case by simp
next
  case (2 y ys)
  then show ?case by (cases u) simp_all
next
  case (3 x xs)
  then show ?case by simp
next
  case (4 x xs y ys)
  show ?case
  proof (cases u)
    case Nil
    with "4.prems" show ?thesis by simp
  next
    case (Cons z zs)
    from "4.prems"(1) have xy: "x \<le> y" by (simp split: if_splits)
    from "4.prems"(2) Cons have yz: "y \<le> z" by (simp split: if_splits)
    show ?thesis
    proof (cases "x < z")
      case True
      with Cons show ?thesis by simp
    next
      case False
      with xy yz have eq: "x = y" "y = z" by simp_all
      from "4.prems"(1) eq have c1: "codes_compare xs ys \<le> 0" by simp
      from "4.prems"(2) Cons eq have c2: "codes_compare ys zs \<le> 0" by simp
      from eq have "\<not> x < y" "\<not> y < x" by simp_all
      from "4.IH" [OF this c1 c2] have "codes_compare xs zs \<le> 0" .
      with eq Cons show ?thesis by simp
    qed
  qed
qed

lemma total_code_compare: "total_cmp code_compare"
  unfolding total_cmp_def code_compare_def using codes_compare_total by blast

lemma transitive_code_compare: "transitive_cmp code_compare"
  unfolding transitive_cmp_def code_compare_def using codes_compare_trans by blast

subsection \<open>The title\<close>

lemma join_nonempty: "x \<noteq> [] \<Longrightarrow> join sep (x # xs) \<noteq> []"
  by (cases xs) auto

lemma join_Cons_filter:
  "s \<noteq> [] \<Longrightarrow>
   join sep (s # filter (\<lambda>s. s \<noteq> []) ss) =
     (if join sep (filter (\<lambda>s. s \<noteq> []) ss) = [] then s
      else s @ sep @ join sep (filter (\<lambda>s. s \<noteq> []) ss))"
proof (cases "filter (\<lambda>s. s \<noteq> []) ss")
  case Nil
  then show ?thesis by simp
next
  case (Cons y ys)
  then have "y \<in> set (filter (\<lambda>s. s \<noteq> []) ss)" by simp
  then have "y \<noteq> []" by simp
  then have "join sep (y # ys) \<noteq> []" by (rule join_nonempty)
  with Cons show ?thesis by simp
qed

lemma spaced_join: "spaced ss = join '' '' (filter (\<lambda>s. s \<noteq> []) ss)"
proof (induction ss)
  case Nil
  then show ?case by simp
next
  case (Cons s ss)
  show ?case
  proof (cases "s = []")
    case True
    with Cons show ?thesis by simp
  next
    case False
    with Cons join_Cons_filter [OF False, of "'' ''" ss] show ?thesis by simp
  qed
qed

lemma title_counted_eq:
  "join '' '' (filter (\<lambda>s. s \<noteq> []) [a, b, c]) @ '' ('' @ Number_toString n @ '')''
     = title_counted a b c n"
  unfolding title_counted_def spaced_join by simp

lemma title_spec_counted:
  assumes "a \<noteq> [] \<or> b \<noteq> [] \<or> c \<noteq> []"
  shows "title_spec a b c n = title_counted a b c n"
proof -
  let ?segs = "filter (\<lambda>s. s \<noteq> []) [a, b, c]"
  let ?p = "''('' @ Number_toString n @ '')''"
  from assms have ne: "?segs \<noteq> []" by auto
  have "title_spec a b c n = join '' '' (?segs @ [?p])"
    by (simp add: title_spec_def spaced_join del: join.simps)
  also have "\<dots> = join '' '' ?segs @ '' '' @ ?p" using ne by (rule join_snoc)
  also have "\<dots> = title_counted a b c n"
    unfolding title_counted_def spaced_join by simp
  finally show ?thesis .
qed

lemma namespace_default:
  "(namespace (metadata e) = Some ''default'') =
     (\<not> (other_namespace e \<or> namespace (metadata e) = None))"
  by (cases "namespace (metadata e)") (simp_all add: other_namespace_def)

subsection \<open>The three branches of the component\<close>

lemma CatalogTable_error:
  "error ctx = Some e \<Longrightarrow>
   CatalogTable d props ctx h =
     (Div (WarningPanel ''error'' ''Could not fetch catalog entities.''
            (CodeSnippet ''text'' (Error_toString e))), h)"
  by (simp add: CatalogTable_def)

lemma CatalogTable_paginated:
  "error ctx = None \<Longrightarrow> p_enablePagination props = Some True \<Longrightarrow>
   CatalogTable d props ctx h =
     (PaginatedCatalogTable (tableColumns props ctx h) (map (toEntityRow d) (h (entities ctx))), h)"
  by (simp add: CatalogTable_def)

lemma CatalogTable_legacy:
  "error ctx = None \<Longrightarrow> p_enablePagination props \<noteq> Some True \<Longrightarrow>
   \<exists>tp. fst (CatalogTable d props ctx h) = Table tp
     \<and> isLoading tp = loading ctx
     \<and> columns tp = tableColumns props ctx h
     \<and> data tp = map (toEntityRow d) (Array_sort (refCompare d) (h (entities ctx)))
     \<and> options tp =
          [''paging'' \<mapsto> JBool (20 < length (h (entities ctx))),
           ''pageSize'' \<mapsto> JNum 20,
           ''actionsColumnIndex'' \<mapsto> JNum (- 1),
           ''loadingType'' \<mapsto> JStr ''linear'',
           ''showEmptyDataSourceMessage'' \<mapsto> JBool (\<not> loading ctx),
           ''padding'' \<mapsto> JStr ''dense'',
           ''pageSizeOptions'' \<mapsto> JNumArray [20, 50, 100]]
          ++ (case p_tableOptions props of None \<Rightarrow> Map.empty | Some opts \<Rightarrow> opts)
     \<and> table_title tp =
          titleDisplay d (filters ctx) @ '' ('' @ Number_toString (length (h (entities ctx))) @ '')''
     \<and> actions tp = (case p_actions props of None \<Rightarrow> Some (defaultActions d) | Some a \<Rightarrow> Some a)
     \<and> subtitle tp = p_subtitle props
     \<and> emptyContent tp = p_emptyContent props
     \<and> snd (CatalogTable d props ctx h) =
          h(entities ctx := Array_sort (refCompare d) (h (entities ctx)))"
  by (simp add: CatalogTable_def LegacyCatalogTable_def Let_def length_Array_sort)

subsection \<open>Sorting by display name\<close>

lemma refCompare_display_name:
  "refCompare d a b = localeCompare d (display_name d a) (display_name d b)"
  by (simp add: refCompare_def toRef_display_name)

lemma sorted_by_display_name:
  assumes tot: "total_cmp (localeCompare d)" and tr: "transitive_cmp (localeCompare d)"
  shows "sorted_wrt (display_name_le d) (Array_sort (refCompare d) es)"
proof -
  have t: "refCompare d a b \<le> 0 \<or> refCompare d b a \<le> 0" for a b
    using tot unfolding total_cmp_def refCompare_def by blast
  have r: "refCompare d a c \<le> 0" if "refCompare d a b \<le> 0" "refCompare d b c \<le> 0" for a b c
    using tr that unfolding transitive_cmp_def refCompare_def by blast
  have "sorted_wrt (\<lambda>a b. refCompare d a b \<le> 0) (Array_sort (refCompare d) es)"
    using t r by (rule sorted_Array_sort)
  moreover have "(\<lambda>a b. refCompare d a b \<le> 0) = display_name_le d"
    by (simp add: fun_eq_iff display_name_le_def refCompare_display_name)
  ultimately show ?thesis by simp
qed

subsection \<open>The view and edit actions\<close>

lemma viewAction_spec:
  "tooltip (viewAction row) = ''View''
   \<and> disabled (viewAction row) =
        Some (annotation (entity row) ANNOTATION_VIEW_URL = None
              \<or> annotation (entity row) ANNOTATION_VIEW_URL = Some [])
   \<and> onClick (viewAction row) b =
        (case annotation (entity row) ANNOTATION_VIEW_URL of
           None \<Rightarrow> b
         | Some url \<Rightarrow> if url = [] then b else b\<lparr>opened := opened b @ [(url, ''_blank'')]\<rparr>)"
  by (cases "annotation (entity row) ANNOTATION_VIEW_URL")
     (simp_all add: viewAction_def Let_def window_open_def)

lemma editAction_spec:
  "tooltip (editAction row) = ''Edit''
   \<and> disabled (editAction row) =
        Some (annotation (entity row) ANNOTATION_EDIT_URL = None
              \<or> annotation (entity row) ANNOTATION_EDIT_URL = Some [])
   \<and> onClick (editAction row) b =
        (case annotation (entity row) ANNOTATION_EDIT_URL of
           None \<Rightarrow> b
         | Some url \<Rightarrow> if url = [] then b else b\<lparr>opened := opened b @ [(url, ''_blank'')]\<rparr>)"
  by (cases "annotation (entity row) ANNOTATION_EDIT_URL")
     (simp_all add: editAction_def Let_def window_open_def)

section \<open>Column selection\<close>

text \<open>
  C9. For the kind filter \<open>user\<close> no kind-specific column is added: the default column
  selection is exactly the hidden title column, the name column with the kind filter's
  value as its default kind, the description column and the tags column, in this order.
\<close>

theorem user_columns:
  "kind_filter (filters ctx) = Some ''user'' \<Longrightarrow>
   defaultColumnsFunc ctx h =
     [TitleColumn True, NameColumn (Some ''user''), MetadataDescriptionColumn, TagsColumn]"
  by (simp add: defaultColumnsFunc_def createEntitySpecificColumns_def columnFactories)

theorem user_columns_witness:
  "defaultColumnsFunc (sample_context (Some ''user'') None None) (\<lambda>a. []) =
     [TitleColumn True, NameColumn (Some ''user''), MetadataDescriptionColumn, TagsColumn]"
  using user_columns [of "sample_context (Some ''user'') None None" "\<lambda>a. []"]
  by (simp add: sample_context_def)

text \<open>
  C10. For the kind filter \<open>location\<close> the default column selection has the type column
  and then the targets column, right after the title and name columns and before the
  description and tags columns; the type column is hidden exactly when a type filter is
  set.
\<close>

theorem location_columns:
  "kind_filter (filters ctx) = Some ''location'' \<Longrightarrow>
   defaultColumnsFunc ctx h =
     [TitleColumn True, NameColumn (Some ''location''),
      SpecTypeColumn (type_filter (filters ctx) \<noteq> None), SpecTargetsColumn,
      MetadataDescriptionColumn, TagsColumn]"
  by (simp add: defaultColumnsFunc_def createEntitySpecificColumns_def columnFactories)

theorem location_columns_witness:
  "defaultColumnsFunc (sample_context (Some ''location'') (Some ''url'') None) (\<lambda>a. []) =
     [TitleColumn True, NameColumn (Some ''location''), SpecTypeColumn True, SpecTargetsColumn,
      MetadataDescriptionColumn, TagsColumn]"
  using location_columns [of "sample_context (Some ''location'') (Some ''url'') None" "\<lambda>a. []"]
  by (simp add: sample_context_def)

text \<open>
  C3, as the code has it. For a kind filter that is unset or has a value other than
  \<open>user\<close>, \<open>domain\<close>, \<open>system\<close>, \<open>group\<close>, \<open>template\<close> and \<open>location\<close>, the
  kind-specific columns (those between the name column and the description column) are
  the system, owner, type and lifecycle columns in this order, the type column hidden
  exactly when a type filter is set; a namespace column follows them exactly when some
  entity of the list has a namespace other than \<open>default\<close> or has no namespace field
  at all.
\<close>

theorem default_kind_columns:
  assumes "kind_filter (filters ctx) \<notin>
     {Some ''user'', Some ''domain'', Some ''system'', Some ''group'', Some ''template'',
      Some ''location''}"
  shows "defaultColumnsFunc ctx h =
     [TitleColumn True, NameColumn (kind_filter (filters ctx))]
     @ [SystemColumn, OwnerColumn, SpecTypeColumn (type_filter (filters ctx) \<noteq> None),
        SpecLifecycleColumn]
     @ (if \<exists>e \<in> set (h (entities ctx)). other_namespace e \<or> namespace (metadata e) = None
        then [NamespaceColumn] else [])
     @ [MetadataDescriptionColumn, TagsColumn]"
proof -
  define other where
    "other = (\<exists>e \<in> set (h (entities ctx)). other_namespace e \<or> namespace (metadata e) = None)"
  have eq: "(namespace (metadata e) = Some ''default'') =
        (\<not> (other_namespace e \<or> namespace (metadata e) = None))" for e
    by (rule namespace_default)
  have every: "list_all (\<lambda>e. namespace (metadata e) = Some ''default'') (h (entities ctx)) =
        (\<not> other)"
    unfolding other_def list_all_iff eq by blast
  from assms have "defaultColumnsFunc ctx h =
     [TitleColumn True, NameColumn (kind_filter (filters ctx))]
     @ [SystemColumn, OwnerColumn, SpecTypeColumn (type_filter (filters ctx) \<noteq> None),
        SpecLifecycleColumn]
     @ (if other then [NamespaceColumn] else [])
     @ [MetadataDescriptionColumn, TagsColumn]"
    by (simp add: defaultColumnsFunc_def createEntitySpecificColumns_def columnFactories
        Let_def every)
  then show ?thesis unfolding other_def .
qed

theorem default_kind_columns_witness:
  "defaultColumnsFunc (sample_context (Some ''component'') (Some ''service'') None)
     (\<lambda>a. [sample_entity ''a'' (Some ''default'') None, sample_entity ''b'' (Some ''other'') None]) =
     [TitleColumn True, NameColumn (Some ''component''), SystemColumn, OwnerColumn,
      SpecTypeColumn True, SpecLifecycleColumn, NamespaceColumn,
      MetadataDescriptionColumn, TagsColumn]"
  using default_kind_columns [of "sample_context (Some ''component'') (Some ''service'') None"
      "\<lambda>a. [sample_entity ''a'' (Some ''default'') None, sample_entity ''b'' (Some ''other'') None]"]
  by (simp add: sample_context_def sample_entity_def other_namespace_def)

text \<open>
  C3 as stated fails on an entity without a namespace field: it has no namespace other
  than the default one (its reference is printed in the default namespace), and the
  namespace column is appended all the same.
\<close>

theorem namespace_column_counterexample:
  "namespace (metadata (sample_entity ''a'' None None)) = None
   \<and> other_namespace (sample_entity ''a'' None None) = False
   \<and> list_ex other_namespace [sample_entity ''a'' None None] = False
   \<and> stringifyEntityRef sample_deps (sample_entity ''a'' None None) = ''Component:default/a''
   \<and> defaultColumnsFunc (sample_context None None None) (\<lambda>a. [sample_entity ''a'' None None]) =
       [TitleColumn True, NameColumn None, SystemColumn, OwnerColumn,
        SpecTypeColumn False, SpecLifecycleColumn, NamespaceColumn,
        MetadataDescriptionColumn, TagsColumn]"
  by (simp add: defaultColumnsFunc_def createEntitySpecificColumns_def columnFactories
      Let_def sample_context_def sample_entity_def sample_deps_def other_namespace_def)

section \<open>The render outcomes\<close>

text \<open>
  C2. The component renders one of three outcomes, chosen by the error first and the
  pagination flag second. Whenever the entity list context reports an error, the render
  is the error panel alone, with the error's string representation, whatever the
  pagination flag; neither table is rendered.
\<close>

theorem render_outcome:
  "outcome_of (fst (CatalogTable d props ctx h)) =
     Some (if error ctx \<noteq> None then ErrorPanel
           else if p_enablePagination props = Some True then PaginatedTable
           else LegacyTable)
   \<and> (\<forall>e. error ctx = Some e \<longrightarrow>
         CatalogTable d props ctx h =
           (Div (WarningPanel ''error'' ''Could not fetch catalog entities.''
                  (CodeSnippet ''text'' (Error_toString e))), h))"
proof (cases "error ctx")
  case None
  show ?thesis
  proof (cases "p_enablePagination props = Some True")
    case True
    with None show ?thesis by (simp add: CatalogTable_paginated)
  next
    case False
    from CatalogTable_legacy [OF None False, of d h] obtain tp
      where "fst (CatalogTable d props ctx h) = Table tp" by blast
    with None False show ?thesis by simp
  qed
next
  case (Some e)
  then show ?thesis by (simp add: CatalogTable_error)
qed

theorem render_outcome_witness:
  "CatalogTable sample_deps (sample_props (Some True))
     (sample_context None None (Some \<lparr> error_name = ''Error'', message = ''boom'' \<rparr>)) (\<lambda>a. [])
   = (Div (WarningPanel ''error'' ''Could not fetch catalog entities.''
            (CodeSnippet ''text'' ''Error: boom'')), \<lambda>a. [])"
  using render_outcome [of sample_deps "sample_props (Some True)"
      "sample_context None None (Some \<lparr> error_name = ''Error'', message = ''boom'' \<rparr>)" "\<lambda>a. []"]
  by (simp add: sample_context_def Error_toString_def)


section \<open>Paging and title of the legacy table\<close>

text \<open>
  C5. In legacy mode (no error, pagination flag not set), when the caller's table options
  are absent or set none of \<open>paging\<close>, \<open>pageSize\<close> and \<open>pageSizeOptions\<close>, the table
  gets one row per entity, the pager is on exactly when there are more than 20 rows (off
  at 20, on at 21), the page size is 20 and the selectable page sizes are 20, 50, 100.
\<close>

theorem legacy_paging:
  assumes "error ctx = None" and "p_enablePagination props \<noteq> Some True"
    and "case p_tableOptions props of
           None \<Rightarrow> True
         | Some opts \<Rightarrow> opts ''paging'' = None \<and> opts ''pageSize'' = None
                          \<and> opts ''pageSizeOptions'' = None"
  shows "\<exists>tp. fst (CatalogTable d props ctx h) = Table tp
     \<and> length (data tp) = length (h (entities ctx))
     \<and> options tp ''paging'' = Some (JBool (20 < length (data tp)))
     \<and> options tp ''pageSize'' = Some (JNum 20)
     \<and> options tp ''pageSizeOptions'' = Some (JNumArray [20, 50, 100])"
proof -
  from CatalogTable_legacy [OF assms(1,2), of d h] obtain tp where
    tp: "fst (CatalogTable d props ctx h) = Table tp"
    and rows: "data tp = map (toEntityRow d) (Array_sort (refCompare d) (h (entities ctx)))"
    and opts: "options tp =
          [''paging'' \<mapsto> JBool (20 < length (h (entities ctx))),
           ''pageSize'' \<mapsto> JNum 20,
           ''actionsColumnIndex'' \<mapsto> JNum (- 1),
           ''loadingType'' \<mapsto> JStr ''linear'',
           ''showEmptyDataSourceMessage'' \<mapsto> JBool (\<not> loading ctx),
           ''padding'' \<mapsto> JStr ''dense'',
           ''pageSizeOptions'' \<mapsto> JNumArray [20, 50, 100]]
          ++ (case p_tableOptions props of None \<Rightarrow> Map.empty | Some opts \<Rightarrow> opts)"
    by blast
  from rows have len: "length (data tp) = length (h (entities ctx))"
    by (simp add: length_Array_sort)
  from assms(3) have
    "options tp ''paging'' = Some (JBool (20 < length (h (entities ctx))))"
    "options tp ''pageSize'' = Some (JNum 20)"
    "options tp ''pageSizeOptions'' = Some (JNumArray [20, 50, 100])"
    unfolding opts by (simp_all add: map_add_def split: option.splits)
  with tp len show ?thesis by simp
qed

theorem legacy_paging_witness:
  "\<exists>tp. fst (CatalogTable sample_deps (sample_props None) (sample_context None None None)
             (\<lambda>a. replicate 21 (sample_entity ''a'' None None))) = Table tp
     \<and> length (data tp) = 21
     \<and> options tp ''paging'' = Some (JBool True)
     \<and> options tp ''pageSize'' = Some (JNum 20)
     \<and> options tp ''pageSizeOptions'' = Some (JNumArray [20, 50, 100])"
  using legacy_paging [of "sample_context None None None" "sample_props None" sample_deps
      "\<lambda>a. replicate 21 (sample_entity ''a'' None None)"]
  by (auto simp add: sample_context_def sample_props_def)

text \<open>
  C6, as the code has it. In legacy mode the title of the table is made of the
  capitalized user filter (\<open>all\<close> when the filter is unset), the type filter and the
  pluralized kind filter, the empty segments left out and one space between neighbours,
  followed by a space and the number of entities in parentheses. With lodash's
  \<open>capitalize\<close> and \<open>pluralize\<close> mapping \<open>all\<close> to \<open>All\<close> and \<open>component\<close> to
  \<open>components\<close>, an unset user filter, the type filter \<open>service\<close>, the kind filter
  \<open>component\<close> and 3 entities give \<open>All service components (3)\<close>.
\<close>

theorem legacy_title:
  assumes "error ctx = None" and "p_enablePagination props \<noteq> Some True"
  shows "\<exists>tp. fst (CatalogTable d props ctx h) = Table tp
     \<and> table_title tp =
          title_counted
            (capitalize d (case user_filter (filters ctx) of None \<Rightarrow> ''all'' | Some u \<Rightarrow> u))
            (filter_value (type_filter (filters ctx)))
            (pluralize d (filter_value (kind_filter (filters ctx))))
            (length (h (entities ctx)))
     \<and> (capitalize d ''all'' = ''All'' \<and> pluralize d ''component'' = ''components''
          \<and> user_filter (filters ctx) = None \<and> type_filter (filters ctx) = Some ''service''
          \<and> kind_filter (filters ctx) = Some ''component'' \<and> length (h (entities ctx)) = 3 \<longrightarrow>
          table_title tp = ''All service components (3)'')"
proof -
  from CatalogTable_legacy [OF assms, of d h] obtain tp where
    tp: "fst (CatalogTable d props ctx h) = Table tp"
    and t: "table_title tp =
          titleDisplay d (filters ctx) @ '' ('' @ Number_toString (length (h (entities ctx))) @ '')''"
    by blast
  have user: "nullish (user_filter (filters ctx)) ''all'' =
      (case user_filter (filters ctx) of None \<Rightarrow> ''all'' | Some u \<Rightarrow> u)"
    by (cases "user_filter (filters ctx)") simp_all
  have general: "table_title tp =
          title_counted
            (capitalize d (case user_filter (filters ctx) of None \<Rightarrow> ''all'' | Some u \<Rightarrow> u))
            (filter_value (type_filter (filters ctx)))
            (pluralize d (filter_value (kind_filter (filters ctx))))
            (length (h (entities ctx)))"
    unfolding t titleDisplay_def Let_def or_else_empty user
    by (rule title_counted_eq)
  have example: "table_title tp = ''All service components (3)''"
    if "capitalize d ''all'' = ''All'' \<and> pluralize d ''component'' = ''components''
          \<and> user_filter (filters ctx) = None \<and> type_filter (filters ctx) = Some ''service''
          \<and> kind_filter (filters ctx) = Some ''component'' \<and> length (h (entities ctx)) = 3"
    unfolding t titleDisplay_def Let_def or_else_empty
    using that by (simp add: Number_toString.simps digit_def)
  from tp general example show ?thesis by blast
qed

theorem legacy_title_witness:
  "element_title (fst (CatalogTable sample_deps (sample_props None)
       (sample_context (Some ''component'') (Some ''service'') None)
       (\<lambda>a. replicate 3 (sample_entity ''a'' None None))))
     = Some ''All service components (3)''
   \<and> element_title (fst (CatalogTable sample_deps (sample_props None)
       (user_context ''owned'' (Some ''component'') (Some ''service''))
       (\<lambda>a. replicate 3 (sample_entity ''a'' None None))))
     = Some ''Owned service components (3)''
   \<and> element_title (fst (CatalogTable sample_deps (sample_props None)
       (user_context ''owned'' None None)
       (\<lambda>a. replicate 21 (sample_entity ''a'' None None))))
     = Some ''Owned (21)''"
proof -
  have props: "p_enablePagination (sample_props None) \<noteq> Some True"
    by (simp add: sample_props_def)
  have "error (sample_context (Some ''component'') (Some ''service'') None) = None"
    by (simp add: sample_context_def)
  from legacy_title [OF this props, of sample_deps
      "\<lambda>a. replicate 3 (sample_entity ''a'' None None)"]
  have one: "element_title (fst (CatalogTable sample_deps (sample_props None)
       (sample_context (Some ''component'') (Some ''service'') None)
       (\<lambda>a. replicate 3 (sample_entity ''a'' None None))))
     = Some ''All service components (3)''"
    by (auto simp add: sample_context_def sample_deps_def)
  have "error (user_context ''owned'' (Some ''component'') (Some ''service'')) = None"
    by (simp add: user_context_def)
  from legacy_title [OF this props, of sample_deps
      "\<lambda>a. replicate 3 (sample_entity ''a'' None None)"]
  have two: "element_title (fst (CatalogTable sample_deps (sample_props None)
       (user_context ''owned'' (Some ''component'') (Some ''service''))
       (\<lambda>a. replicate 3 (sample_entity ''a'' None None))))
     = Some ''Owned service components (3)''"
    by (auto simp add: user_context_def sample_deps_def title_counted_def
        Number_toString.simps digit_def)
  have "error (user_context ''owned'' None None) = None"
    by (simp add: user_context_def)
  from legacy_title [OF this props, of sample_deps
      "\<lambda>a. replicate 21 (sample_entity ''a'' None None)"]
  have three: "element_title (fst (CatalogTable sample_deps (sample_props None)
       (user_context ''owned'' None None)
       (\<lambda>a. replicate 21 (sample_entity ''a'' None None))))
     = Some ''Owned (21)''"
    by (auto simp add: user_context_def sample_deps_def title_counted_def
        Number_toString.simps digit_def)
  from one two three show ?thesis by simp
qed

text \<open>
  C6 as stated fails when the three filter segments are all empty (a user filter whose
  value is the empty string, no type filter, no kind filter): the four segments with the
  empty ones omitted leave the count alone, and the code's title has a space before it.
\<close>

theorem title_counterexample:
  "element_title (fst (CatalogTable sample_deps (sample_props None)
       (user_context [] None None) (\<lambda>a. [])))
     = Some '' (0)''
   \<and> title_spec (capitalize sample_deps []) (filter_value None)
        (pluralize sample_deps (filter_value None)) 0
     = ''(0)''"
  by (simp add: CatalogTable_def LegacyCatalogTable_def Let_def titleDisplay_def or_else_def
      user_context_def sample_props_def sample_deps_def title_spec_def
      Number_toString.simps digit_def Array_sort_def)

section \<open>The projected row\<close>

text \<open>
  C7. The row of an entity carries the entity; its owner relations are the entity's
  "owned by" relations, asked for without a kind filter; its system relations are the
  entity's "part of" relations of kind \<open>system\<close>; the owner and system titles are the
  humanized names of these relations (default kind \<open>group\<close> for owners, \<open>system\<close> for
  systems) separated by a comma and a space, and are empty when there is no relation; the
  stringified reference is \<open>stringifyEntityRef\<close> of the entity. The projection is a
  function of the entity alone: it neither takes nor returns the store or the browser.
\<close>

theorem row_projection:
  "entity (toEntityRow d e) = e
   \<and> ownedByRelations (resolved (toEntityRow d e)) = getEntityRelations d e RELATION_OWNED_BY None
   \<and> partOfSystemRelations (resolved (toEntityRow d e)) =
        getEntityRelations d e RELATION_PART_OF (Some ''system'')
   \<and> ownedByRelationsTitle (resolved (toEntityRow d e)) =
        separated '', '' (map (\<lambda>r. humanizeEntityRef d (Inr r) ''group'')
          (getEntityRelations d e RELATION_OWNED_BY None))
   \<and> partOfSystemRelationTitle (resolved (toEntityRow d e)) =
        separated '', '' (map (\<lambda>r. humanizeEntityRef d (Inr r) ''system'')
          (getEntityRelations d e RELATION_PART_OF (Some ''system'')))
   \<and> (getEntityRelations d e RELATION_OWNED_BY None = [] \<longrightarrow>
        ownedByRelationsTitle (resolved (toEntityRow d e)) = [])
   \<and> (getEntityRelations d e RELATION_PART_OF (Some ''system'') = [] \<longrightarrow>
        partOfSystemRelationTitle (resolved (toEntityRow d e)) = [])
   \<and> entityRef (resolved (toEntityRow d e)) = stringifyEntityRef d e
   \<and> resolved_name (resolved (toEntityRow d e)) = humanizeEntityRef d (Inl e) ''Component''"
  by (simp add: toEntityRow_def Let_def join_separated)

theorem row_projection_witness:
  "ownedByRelationsTitle (resolved (toEntityRow sample_relations_deps (sample_entity ''web'' None None)))
     = ''team-a, team-b''
   \<and> partOfSystemRelationTitle (resolved (toEntityRow sample_relations_deps (sample_entity ''web'' None None)))
     = []
   \<and> entityRef (resolved (toEntityRow sample_relations_deps (sample_entity ''web'' None None)))
     = ''Component:default/web''"
  using row_projection [of sample_relations_deps "sample_entity ''web'' None None"]
  by (simp add: sample_relations_deps_def sample_deps_def sample_entity_def
      RELATION_OWNED_BY_def RELATION_PART_OF_def)


section \<open>The default actions\<close>

text \<open>
  C8, as the code has it. In legacy mode, when the caller passes no actions, the table
  gets the three default actions. The View action is disabled exactly when the entity's
  view-URL annotation is absent or is the empty string; its handler opens the URL with
  the target \<open>_blank\<close> when the action is enabled and leaves the browser as it is
  otherwise. The Edit action does the same with the edit-URL annotation. A handler is a
  total function on the browser's state: a missing annotation is no error.
\<close>

theorem legacy_default_actions:
  assumes "error ctx = None" and "p_enablePagination props \<noteq> Some True"
    and "p_actions props = None"
  shows "\<exists>tp view edit star.
     fst (CatalogTable d props ctx h) = Table tp
     \<and> actions tp = Some [view, edit, star]
     \<and> (\<forall>row b.
          tooltip (view row) = ''View''
          \<and> disabled (view row) =
               Some (annotation (entity row) ANNOTATION_VIEW_URL = None
                     \<or> annotation (entity row) ANNOTATION_VIEW_URL = Some [])
          \<and> onClick (view row) b =
               (case annotation (entity row) ANNOTATION_VIEW_URL of
                  None \<Rightarrow> b
                | Some url \<Rightarrow>
                    if url = [] then b else b\<lparr>opened := opened b @ [(url, ''_blank'')]\<rparr>))
     \<and> (\<forall>row b.
          tooltip (edit row) = ''Edit''
          \<and> disabled (edit row) =
               Some (annotation (entity row) ANNOTATION_EDIT_URL = None
                     \<or> annotation (entity row) ANNOTATION_EDIT_URL = Some [])
          \<and> onClick (edit row) b =
               (case annotation (entity row) ANNOTATION_EDIT_URL of
                  None \<Rightarrow> b
                | Some url \<Rightarrow>
                    if url = [] then b else b\<lparr>opened := opened b @ [(url, ''_blank'')]\<rparr>))"
proof -
  from CatalogTable_legacy [OF assms(1,2), of d h] obtain tp where
    tp: "fst (CatalogTable d props ctx h) = Table tp"
    and acts: "actions tp =
      (case p_actions props of None \<Rightarrow> Some (defaultActions d) | Some a \<Rightarrow> Some a)"
    by blast
  from acts assms(3) have "actions tp = Some [viewAction, editAction, starAction d]"
    by (simp add: defaultActions_def)
  with tp viewAction_spec editAction_spec show ?thesis by blast
qed

theorem legacy_default_actions_witness:
  "\<exists>tp view edit star.
     fst (CatalogTable sample_deps (sample_props None) (sample_context None None None)
            (\<lambda>a. [sample_entity ''web'' None (Some [(ANNOTATION_VIEW_URL, ''https://web'')])]))
       = Table tp
     \<and> actions tp = Some [view, edit, star]
     \<and> disabled (view (toEntityRow sample_deps
          (sample_entity ''web'' None (Some [(ANNOTATION_VIEW_URL, ''https://web'')])))) = Some False
     \<and> onClick (view (toEntityRow sample_deps
          (sample_entity ''web'' None (Some [(ANNOTATION_VIEW_URL, ''https://web'')]))))
          \<lparr> opened = [] \<rparr> = \<lparr> opened = [(''https://web'', ''_blank'')] \<rparr>
     \<and> disabled (edit (toEntityRow sample_deps
          (sample_entity ''web'' None (Some [(ANNOTATION_VIEW_URL, ''https://web'')])))) = Some True
     \<and> onClick (edit (toEntityRow sample_deps
          (sample_entity ''web'' None (Some [(ANNOTATION_VIEW_URL, ''https://web'')]))))
          \<lparr> opened = [] \<rparr> = \<lparr> opened = [] \<rparr>"
proof -
  let ?e = "sample_entity ''web'' None (Some [(ANNOTATION_VIEW_URL, ''https://web'')])"
  let ?row = "toEntityRow sample_deps ?e"
  have hyps: "error (sample_context None None None) = None"
    "p_enablePagination (sample_props None) \<noteq> Some True"
    "p_actions (sample_props None) = None"
    by (simp_all add: sample_context_def sample_props_def)
  have v: "annotation (entity ?row) ANNOTATION_VIEW_URL = Some ''https://web''"
    by (simp add: toEntityRow_def Let_def annotation_def sample_entity_def)
  have e: "annotation (entity ?row) ANNOTATION_EDIT_URL = None"
    by (simp add: toEntityRow_def Let_def annotation_def sample_entity_def
        ANNOTATION_VIEW_URL_def ANNOTATION_EDIT_URL_def)
  from legacy_default_actions [OF hyps, of sample_deps "\<lambda>a. [?e]"]
  obtain tp view edit star where
    tp: "fst (CatalogTable sample_deps (sample_props None) (sample_context None None None)
            (\<lambda>a. [?e])) = Table tp"
    and acts: "actions tp = Some [view, edit, star]"
    and vs: "\<And>row b. disabled (view row) =
               Some (annotation (entity row) ANNOTATION_VIEW_URL = None
                     \<or> annotation (entity row) ANNOTATION_VIEW_URL = Some [])
          \<and> onClick (view row) b =
               (case annotation (entity row) ANNOTATION_VIEW_URL of
                  None \<Rightarrow> b
                | Some url \<Rightarrow>
                    if url = [] then b else b\<lparr>opened := opened b @ [(url, ''_blank'')]\<rparr>)"
    and es: "\<And>row b. disabled (edit row) =
               Some (annotation (entity row) ANNOTATION_EDIT_URL = None
                     \<or> annotation (entity row) ANNOTATION_EDIT_URL = Some [])
          \<and> onClick (edit row) b =
               (case annotation (entity row) ANNOTATION_EDIT_URL of
                  None \<Rightarrow> b
                | Some url \<Rightarrow>
                    if url = [] then b else b\<lparr>opened := opened b @ [(url, ''_blank'')]\<rparr>)"
    by blast
  from vs [of ?row "\<lparr> opened = [] \<rparr>"] v
  have "disabled (view ?row) = Some False"
    "onClick (view ?row) \<lparr> opened = [] \<rparr> = \<lparr> opened = [(''https://web'', ''_blank'')] \<rparr>"
    by simp_all
  moreover from es [of ?row "\<lparr> opened = [] \<rparr>"] e
  have "disabled (edit ?row) = Some True"
    "onClick (edit ?row) \<lparr> opened = [] \<rparr> = \<lparr> opened = [] \<rparr>"
    by simp_all
  ultimately show ?thesis using tp acts by blast
qed

text \<open>
  C8 as stated fails twice. With the pagination flag set and no actions from the caller,
  the rendered table is given no actions at all. And on an entity whose view-URL
  annotation is present and empty, the annotation is not absent and yet the View action
  is disabled.
\<close>

theorem default_actions_counterexample:
  "p_actions (sample_props (Some True)) = None
   \<and> outcome_of (fst (CatalogTable sample_deps (sample_props (Some True))
        (sample_context None None None) (\<lambda>a. [sample_entity ''web'' None None])))
     = Some PaginatedTable
   \<and> element_actions (fst (CatalogTable sample_deps (sample_props (Some True))
        (sample_context None None None) (\<lambda>a. [sample_entity ''web'' None None])))
     = None
   \<and> annotation (sample_entity ''web'' None (Some [(ANNOTATION_VIEW_URL, [])])) ANNOTATION_VIEW_URL
     = Some []
   \<and> disabled (hd (defaultActions sample_deps)
        (toEntityRow sample_deps (sample_entity ''web'' None (Some [(ANNOTATION_VIEW_URL, [])]))))
     = Some True
   \<and> \<not> (disabled (hd (defaultActions sample_deps)
        (toEntityRow sample_deps (sample_entity ''web'' None (Some [(ANNOTATION_VIEW_URL, [])]))))
     = Some (annotation (sample_entity ''web'' None (Some [(ANNOTATION_VIEW_URL, [])]))
               ANNOTATION_VIEW_URL = None))"
  by (simp add: CatalogTable_def sample_props_def sample_context_def
      defaultActions_def viewAction_def toEntityRow_def Let_def annotation_def
      sample_entity_def)

section \<open>The order of the rows\<close>

text \<open>
  C4. In legacy mode the rows are the projections of the entities of the list, each
  once, in ascending order of display name under the locale's comparison
  (\<open>localeCompare\<close>, a consistent comparison function: total and transitive). The
  display name of an entity is its title if set (defined and not empty) and otherwise
  its humanized reference with the default kind \<open>Component\<close>.
\<close>

theorem legacy_rows_sorted:
  assumes "error ctx = None" and "p_enablePagination props \<noteq> Some True"
    and "total_cmp (localeCompare d)" and "transitive_cmp (localeCompare d)"
  shows "\<exists>tp es. fst (CatalogTable d props ctx h) = Table tp
     \<and> data tp = map (toEntityRow d) es
     \<and> map entity (data tp) = es
     \<and> mset es = mset (h (entities ctx))
     \<and> sorted_wrt (display_name_le d) es"
proof -
  let ?es = "Array_sort (refCompare d) (h (entities ctx))"
  from CatalogTable_legacy [OF assms(1,2), of d h] obtain tp where
    tp: "fst (CatalogTable d props ctx h) = Table tp"
    and rows: "data tp = map (toEntityRow d) ?es"
    by blast
  have "map entity (map (toEntityRow d) ?es) = ?es"
    by (simp add: toEntityRow_def Let_def comp_def)
  with rows have ents: "map entity (data tp) = ?es" by simp
  have perm: "mset ?es = mset (h (entities ctx))" by (rule mset_Array_sort)
  have srt: "sorted_wrt (display_name_le d) ?es"
    using assms(3,4) by (rule sorted_by_display_name)
  from tp rows ents perm srt show ?thesis by blast
qed

theorem legacy_rows_sorted_witness:
  "\<exists>tp es. fst (CatalogTable sample_deps (sample_props None) (sample_context None None None)
                (\<lambda>a. [sample_entity ''b'' None None, sample_entity ''a'' None None])) = Table tp
     \<and> data tp = map (toEntityRow sample_deps) es
     \<and> map entity (data tp) = es
     \<and> mset es = mset [sample_entity ''b'' None None, sample_entity ''a'' None None]
     \<and> sorted_wrt (display_name_le sample_deps) es"
proof -
  have "error (sample_context None None None) = None"
    "p_enablePagination (sample_props None) \<noteq> Some True"
    "total_cmp (localeCompare sample_deps)"
    "transitive_cmp (localeCompare sample_deps)"
    by (simp_all add: sample_context_def sample_props_def sample_deps_def
        total_code_compare transitive_code_compare)
  from legacy_rows_sorted [OF this,
      of "\<lambda>a. [sample_entity ''b'' None None, sample_entity ''a'' None None]"]
  show ?thesis by (simp add: sample_context_def)
qed

section \<open>The entity list after a render\<close>

text \<open>
  C1 fails in legacy mode. \<open>LegacyCatalogTable\<close> sorts the array it is given, which is
  the array of the entity list context, in place: a list holding \<open>b\<close> before \<open>a\<close> holds
  \<open>a\<close> before \<open>b\<close> after the render. The paginated render of the same list, which maps
  the array without sorting it, leaves it as it was.
\<close>

theorem legacy_render_sorts_in_place:
  "snd (CatalogTable sample_deps (sample_props None) (sample_context None None None)
          (\<lambda>a. [sample_entity ''b'' None None, sample_entity ''a'' None None])) 0
     = [sample_entity ''a'' None None, sample_entity ''b'' None None]
   \<and> snd (CatalogTable sample_deps (sample_props (Some True)) (sample_context None None None)
          (\<lambda>a. [sample_entity ''b'' None None, sample_entity ''a'' None None])) 0
     = [sample_entity ''b'' None None, sample_entity ''a'' None None]"
  by (simp add: CatalogTable_def LegacyCatalogTable_def Let_def Array_sort_def refCompare_def
      toRef_def or_else_def sample_context_def sample_props_def sample_deps_def
      sample_entity_def code_compare_def)


end
